theory Spec2Isabelle
  imports Main
begin

section \<open>JavaScript values\<close>

text \<open>
  The client library (PseudonymHandler) is JavaScript. Values that come out of
  \<^verbatim>\<open>response.json()\<close> or are passed by a caller are dynamically typed; they are
  modelled by \<open>jsval\<close>. Numbers are restricted to integer values (the library only
  handles status codes, amounts and time values). An object is its list of
  own properties.
\<close>

datatype jsval =
    Undefined
  | Null
  | Bool bool
  | Num int
  | Str string
  | Arr "jsval list"
  | Obj "(string \<times> jsval) list"

text \<open>Everything the code can throw.\<close>

datatype error =
    TypeError                \<comment> \<open>raised by the engine: property of undefined/null, not iterable, not a function\<close>
  | SyntaxError              \<comment> \<open>\<^verbatim>\<open>response.json()\<close> on a body that is not JSON\<close>
  | NetworkError             \<comment> \<open>the promise of \<^verbatim>\<open>fetch\<close> rejects\<close>
  | ServerNotAvailable       \<comment> \<open>\<^verbatim>\<open>new Error("Server not available")\<close>\<close>
  | CantConnect              \<comment> \<open>\<^verbatim>\<open>new Error("Can't connect to Mainzelliste!")\<close>\<close>
  | ResponseError string     \<comment> \<open>\<^verbatim>\<open>new Error(await response.text())\<close>\<close>
  | InvalidFirstname         \<comment> \<open>\<^verbatim>\<open>new Error("Invalid firstname!")\<close>\<close>
  | InvalidLastname          \<comment> \<open>\<^verbatim>\<open>new Error("Invalid lastname!")\<close>\<close>
  | InvalidBirthdayType      \<comment> \<open>\<^verbatim>\<open>new TypeError("Invalid birthday!")\<close>\<close>
  | InvalidBirthday          \<comment> \<open>\<^verbatim>\<open>new Error("Invalid birthday!")\<close>\<close>
  | InvalidMDAT              \<comment> \<open>\<^verbatim>\<open>new TypeError("Invalid MDAT!")\<close>\<close>

definition bindE :: "error + 'a \<Rightarrow> ('a \<Rightarrow> error + 'b) \<Rightarrow> error + 'b" where
  "bindE m f = (case m of Inl e \<Rightarrow> Inl e | Inr x \<Rightarrow> f x)"

fun typeof :: "jsval \<Rightarrow> string" where
  "typeof Undefined = ''undefined''"
| "typeof Null = ''object''"
| "typeof (Bool b) = ''boolean''"
| "typeof (Num n) = ''number''"
| "typeof (Str s) = ''string''"
| "typeof (Arr xs) = ''object''"
| "typeof (Obj kvs) = ''object''"

text \<open>Truthiness, as tested by \<^verbatim>\<open>c ? a : b\<close>.\<close>

fun truthy :: "jsval \<Rightarrow> bool" where
  "truthy Undefined = False"
| "truthy Null = False"
| "truthy (Bool b) = b"
| "truthy (Num n) = (n \<noteq> 0)"
| "truthy (Str s) = (s \<noteq> [])"
| "truthy (Arr xs) = True"
| "truthy (Obj kvs) = True"

text \<open>
  \<^verbatim>\<open>v.name\<close> for the property names the library reads (none of them is a built-in
  property of arrays, strings or \<^verbatim>\<open>Object.prototype\<close>): a TypeError on undefined
  and null, the own property of an object, undefined everywhere else.
\<close>

fun getProp :: "jsval \<Rightarrow> string \<Rightarrow> error + jsval" where
  "getProp Undefined k = Inl TypeError"
| "getProp Null k = Inl TypeError"
| "getProp (Obj kvs) k = Inr (case map_of kvs k of Some v \<Rightarrow> v | None \<Rightarrow> Undefined)"
| "getProp v k = Inr Undefined"

subsection \<open>Strings\<close>

text \<open>
  Strings are lists of 8-bit code units. \<^verbatim>\<open>String.prototype.trim\<close> removes white
  space and line terminators at both ends: TAB, LF, VT, FF, CR, SP and NBSP in
  this range.
\<close>

definition isWhiteSpace :: "char \<Rightarrow> bool" where
  "isWhiteSpace c = (of_char c \<in> {9, 10, 11, 12, 13, 32, 160 :: nat})"

definition trim :: "string \<Rightarrow> string" where
  "trim s = rev (dropWhile isWhiteSpace (rev (dropWhile isWhiteSpace s)))"

text \<open>\<^verbatim>\<open>s.split(c)\<close> for a one-character separator.\<close>

fun split :: "char \<Rightarrow> string \<Rightarrow> string list" where
  "split c [] = [[]]"
| "split c (x # xs) =
     (if x = c then [] # split c xs
      else (case split c xs of [] \<Rightarrow> [[x]] | w # ws \<Rightarrow> (x # w) # ws))"

text \<open>Decimal digits of an integer-valued number, as \<^verbatim>\<open>toString()\<close> prints it.\<close>

definition digit :: "nat \<Rightarrow> char" where
  "digit n = ''0123456789'' ! (n mod 10)"

function show_nat :: "nat \<Rightarrow> string" where
  "show_nat n = (if n < 10 then [digit n] else show_nat (n div 10) @ [digit (n mod 10)])"
  by pat_completeness auto
termination
  by (relation "measure id") auto

definition show_int :: "int \<Rightarrow> string" where
  "show_int i = (if i < 0 then CHR ''-'' # show_nat (nat (- i)) else show_nat (nat i))"

definition isDigit :: "char \<Rightarrow> bool" where
  "isDigit c = (48 \<le> (of_char c :: nat) \<and> (of_char c :: nat) \<le> 57)"

definition digitVal :: "char \<Rightarrow> int" where
  "digitVal c = int (of_char c) - 48"

text \<open>
  \<^verbatim>\<open>v[i]\<close> for an index: an array element, a character of a string, the property
  named by the digits of \<open>i\<close> of an object; undefined when there is none.
\<close>

fun getIndex :: "jsval \<Rightarrow> nat \<Rightarrow> error + jsval" where
  "getIndex Undefined i = Inl TypeError"
| "getIndex Null i = Inl TypeError"
| "getIndex (Arr xs) i = Inr (if i < length xs then xs ! i else Undefined)"
| "getIndex (Str s) i = Inr (if i < length s then Str [s ! i] else Undefined)"
| "getIndex (Obj kvs) i = Inr (case map_of kvs (show_nat i) of Some v \<Rightarrow> v | None \<Rightarrow> Undefined)"
| "getIndex v i = Inr Undefined"

text \<open>The characters of a string value.\<close>

definition stringOf :: "jsval \<Rightarrow> string" where
  "stringOf v = (case v of Str s \<Rightarrow> s | _ \<Rightarrow> [])"

text \<open>
  The string that the operator \<^verbatim>\<open>+\<close> makes of an operand when the other operand is
  a string. An array is joined with commas, undefined and null elements giving the
  empty string (\<open>joinStr\<close>). An object out of \<^verbatim>\<open>response.json()\<close> gives
  \<^verbatim>\<open>[object Object]\<close>, unless it has a property \<^verbatim>\<open>toString\<close> of its own: that is
  not a function, and the conversion throws a TypeError.
\<close>

fun toStr :: "jsval \<Rightarrow> error + string"
  and joinStr :: "jsval list \<Rightarrow> error + string" where
  "toStr Undefined = Inr ''undefined''"
| "toStr Null = Inr ''null''"
| "toStr (Bool b) = Inr (if b then ''true'' else ''false'')"
| "toStr (Num n) = Inr (show_int n)"
| "toStr (Str s) = Inr s"
| "toStr (Arr xs) = joinStr xs"
| "toStr (Obj kvs) =
     (if map_of kvs ''toString'' \<noteq> None then Inl TypeError else Inr ''[object Object]'')"
| "joinStr [] = Inr []"
| "joinStr (x # xs) =
     (case (if x = Undefined \<or> x = Null then Inr [] else toStr x) of
        Inl e \<Rightarrow> Inl e
      | Inr s \<Rightarrow>
          if xs = [] then Inr s
          else (case joinStr xs of Inl e \<Rightarrow> Inl e | Inr r \<Rightarrow> Inr (s @ '','' @ r)))"

section \<open>Dates\<close>

text \<open>
  A valid \<^verbatim>\<open>Date\<close> is its time value, milliseconds since 1970-01-01T00:00Z. The
  engine's calendar is the proleptic Gregorian one. \<open>civil_from_days\<close> gives
  year, month (1..12) and day of month of a day number, \<open>days_from_civil\<close> is
  the day number of a date.
\<close>

definition msPerDay :: int where
  "msPerDay = 86400000"

definition civil_from_days :: "int \<Rightarrow> int \<times> int \<times> int" where
  "civil_from_days z0 =
     (let z = z0 + 719468;
          era = z div 146097;
          doe = z - era * 146097;
          yoe = (doe - doe div 1460 + doe div 36524 - doe div 146096) div 365;
          y = yoe + era * 400;
          doy = doe - (365 * yoe + yoe div 4 - yoe div 100);
          mp = (5 * doy + 2) div 153;
          d = doy - (153 * mp + 2) div 5 + 1;
          m = (if mp < 10 then mp + 3 else mp - 9)
      in (if m \<le> 2 then y + 1 else y, m, d))"

definition days_from_civil :: "int \<Rightarrow> int \<Rightarrow> int \<Rightarrow> int" where
  "days_from_civil y0 m d =
     (let y = (if m \<le> 2 then y0 - 1 else y0);
          era = y div 400;
          yoe = y - era * 400;
          doy = (153 * (if m > 2 then m - 3 else m + 9) + 2) div 5 + d - 1;
          doe = yoe * 365 + yoe div 4 - yoe div 100 + doy
      in era * 146097 + doe - 719468)"

definition isLeapYear :: "int \<Rightarrow> bool" where
  "isLeapYear y = (y mod 4 = 0 \<and> (y mod 100 \<noteq> 0 \<or> y mod 400 = 0))"

definition daysInMonth :: "int \<Rightarrow> int \<Rightarrow> int" where
  "daysInMonth y m =
     (if m = 2 then (if isLeapYear y then 29 else 28)
      else if m = 4 \<or> m = 6 \<or> m = 9 \<or> m = 11 then 30 else 31)"

text \<open>
  What the library needs of the JavaScript runtime: the clock
  (\<^verbatim>\<open>new Date().getTime()\<close>), the local time zone (the offset of local time from
  UTC, in milliseconds, at a given time value) and the engine-specific part of
  \<^verbatim>\<open>Date.parse\<close>.
\<close>

record runtime =
  now :: int
  zone :: "int \<Rightarrow> int"
  legacyParse :: "string \<Rightarrow> int option"

definition localDay :: "runtime \<Rightarrow> int \<Rightarrow> int \<times> int \<times> int" where
  "localDay rt t = civil_from_days ((t + zone rt t) div msPerDay)"

definition getFullYear :: "runtime \<Rightarrow> int \<Rightarrow> int" where
  "getFullYear rt t = fst (localDay rt t)"

definition getMonth :: "runtime \<Rightarrow> int \<Rightarrow> int" where
  "getMonth rt t = fst (snd (localDay rt t)) - 1"

definition getDate :: "runtime \<Rightarrow> int \<Rightarrow> int" where
  "getDate rt t = snd (snd (localDay rt t))"

text \<open>
  \<^verbatim>\<open>Date.parse\<close>: ECMAScript fixes the date-only form \<^verbatim>\<open>YYYY-MM-DD\<close> of a calendar
  date to midnight UTC of that date; every other string is left to the engine
  (\<open>legacyParse\<close>). \<open>None\<close> is NaN.
\<close>

definition isoDateOnly :: "string \<Rightarrow> int option" where
  "isoDateOnly s =
     (case s of
        [y1, y2, y3, y4, h1, m1, m2, h2, d1, d2] \<Rightarrow>
          (if h1 = CHR ''-'' \<and> h2 = CHR ''-'' \<and> list_all isDigit [y1, y2, y3, y4, m1, m2, d1, d2]
           then (let y = 1000 * digitVal y1 + 100 * digitVal y2 + 10 * digitVal y3 + digitVal y4;
                     m = 10 * digitVal m1 + digitVal m2;
                     d = 10 * digitVal d1 + digitVal d2
                 in if 1 \<le> m \<and> m \<le> 12 \<and> 1 \<le> d \<and> d \<le> daysInMonth y m
                    then Some (days_from_civil y m d * msPerDay) else None)
           else None)
      | _ \<Rightarrow> None)"

definition dateParse :: "runtime \<Rightarrow> string \<Rightarrow> int option" where
  "dateParse rt s = (case isoDateOnly s of Some t \<Rightarrow> Some t | None \<Rightarrow> legacyParse rt s)"

text \<open>
  The birthday argument of the library is a string, a number or a \<^verbatim>\<open>Date\<close> object
  (\<open>DateObj\<close>, with \<open>None\<close> for an invalid date); anything else is a \<open>Val\<close> too.
\<close>

datatype birthday_arg = Val jsval | DateObj "int option"

text \<open>\<^verbatim>\<open>new Date(birthday)\<close>: the time value, \<open>None\<close> for an invalid date.\<close>

fun newDate :: "runtime \<Rightarrow> birthday_arg \<Rightarrow> int option" where
  "newDate rt (DateObj t) = t"
| "newDate rt (Val (Str s)) = dateParse rt s"
| "newDate rt (Val (Num n)) = (if \<bar>n\<bar> \<le> 8640000000000000 then Some n else None)"
| "newDate rt (Val v) = None"

section \<open>Patients\<close>

record IDAT =
  firstname :: string
  lastname :: string
  birthday :: int

record Patient =
  status :: int
  sureness :: bool
  pseudonym :: jsval
  idat :: IDAT
  mdat :: string
  tentative :: jsval
  tokenURL :: jsval
  tokenUseCallback :: jsval

definition IDAT_CONFLICT :: int where "IDAT_CONFLICT = - 3"
definition TOKEN_INVALID :: int where "TOKEN_INVALID = - 2"
definition IDAT_INVALID :: int where "IDAT_INVALID = - 1"
definition CREATED :: int where "CREATED = 0"
definition PSEUDONYMIZED :: int where "PSEUDONYMIZED = 1"
definition PROCESSED :: int where "PROCESSED = 11"
definition NOT_PROCESSED :: int where "NOT_PROCESSED = 12"
definition FOUND :: int where "FOUND = 21"
definition NOT_FOUND :: int where "NOT_FOUND = 22"

lemmas PatientStatus_defs =
  IDAT_CONFLICT_def TOKEN_INVALID_def IDAT_INVALID_def CREATED_def PSEUDONYMIZED_def
  PROCESSED_def NOT_PROCESSED_def FOUND_def NOT_FOUND_def

subsection \<open>createIDAT, createPatient, updateIDAT, updateMDAT\<close>

definition createIDAT :: "runtime \<Rightarrow> jsval \<Rightarrow> jsval \<Rightarrow> birthday_arg \<Rightarrow> error + IDAT" where
  "createIDAT rt fn ln bd =
     (if typeof fn \<noteq> ''string'' \<or> trim (stringOf fn) = [] then Inl InvalidFirstname
      else if typeof ln \<noteq> ''string'' \<or> trim (stringOf ln) = [] then Inl InvalidLastname
      else if (case bd of Val v \<Rightarrow> typeof v \<noteq> ''string'' \<and> typeof v \<noteq> ''number'' | DateObj t \<Rightarrow> False)
        then Inl InvalidBirthdayType
      else (case newDate rt bd of
              None \<Rightarrow> Inl InvalidBirthday
            | Some t \<Rightarrow>
                if t > now rt then Inl InvalidBirthday
                else Inr \<lparr>firstname = trim (stringOf fn), lastname = trim (stringOf ln),
                          birthday = t\<rparr>))"

definition createPatient ::
  "runtime \<Rightarrow> jsval \<Rightarrow> jsval \<Rightarrow> birthday_arg \<Rightarrow> jsval \<Rightarrow> error + Patient" where
  "createPatient rt fn ln bd md =
     (case createIDAT rt fn ln bd of
        Inl e \<Rightarrow> Inl e
      | Inr i \<Rightarrow>
          (let m = (if md = Undefined \<or> md = Null then Str [] else md)
           in if typeof m \<noteq> ''string'' then Inl InvalidMDAT
              else Inr \<lparr>status = CREATED, sureness = False, pseudonym = Null, idat = i,
                        mdat = stringOf m, tentative = Bool False, tokenURL = Null,
                        tokenUseCallback = Null\<rparr>))"

text \<open>
  The loop of updateIDAT over the keys of \<^verbatim>\<open>patient.idat\<close> (firstname, lastname,
  birthday, in this order): \<open>eqs\<close> holds, for each key, whether the old and the
  new value are equal; the first unequal one resets the patient and leaves the loop.
\<close>

fun updateIDAT_loop :: "bool list \<Rightarrow> Patient \<Rightarrow> Patient" where
  "updateIDAT_loop [] p = p"
| "updateIDAT_loop (equal # eqs) p =
     (if \<not> equal then p\<lparr>pseudonym := Null, status := CREATED\<rparr> else updateIDAT_loop eqs p)"

definition updateIDAT ::
  "runtime \<Rightarrow> Patient \<Rightarrow> jsval \<Rightarrow> jsval \<Rightarrow> birthday_arg \<Rightarrow> error + Patient" where
  "updateIDAT rt patient fn ln bd =
     (case createIDAT rt fn ln bd of
        Inl e \<Rightarrow> Inl e
      | Inr i \<Rightarrow>
          (let p1 = (if status patient > 0
                     then updateIDAT_loop
                            [firstname (idat patient) = firstname i,
                             lastname (idat patient) = lastname i,
                             birthday (idat patient) = birthday i] patient
                     else patient)
           in Inr (p1\<lparr>idat := i\<rparr>)))"

text \<open>\<open>None\<close> is a missing (undefined or null) argument.\<close>

definition updateMDAT :: "Patient \<Rightarrow> string option \<Rightarrow> Patient" where
  "updateMDAT patient md0 =
     (let md = (case md0 of None \<Rightarrow> [] | Some m \<Rightarrow> m)
      in if mdat patient \<noteq> md
         then (let p1 = patient\<lparr>mdat := md\<rparr>
               in if status p1 > 1
                  then p1\<lparr>status := (if status p1 \<noteq> PSEUDONYMIZED \<and> tokenUseCallback p1 = Bool True
                                      then CREATED else PSEUDONYMIZED)\<rparr>
                  else p1)
         else patient)"

section \<open>The external services\<close>

text \<open>
  Every exchange with the server or the Mainzelliste goes through \<^verbatim>\<open>fetch\<close>. A
  request is its URL, verb (the HTTP method), headers and body; the body built by
  \<^verbatim>\<open>JSON.stringify(v)\<close> is kept as the value \<open>v\<close> (\<open>Json v\<close>). A response
  is its status code and its body, read as JSON (\<open>None\<close> when it is not JSON) or as text.
  The services are a function \<open>net\<close> from the requests already sent and the
  current request to what \<^verbatim>\<open>await fetch(...)\<close> gives: a rejected promise, undefined
  or a response.
\<close>

datatype payload = NoBody | Text string | Json jsval

record request =
  url :: jsval
  verb :: string
  headers :: "(string \<times> string) list"
  body :: payload

record response =
  code :: int
  json :: "jsval option"
  responseText :: string

datatype fetched = Rejected | NoResponse | Got response

type_synonym net = "request list \<Rightarrow> request \<Rightarrow> fetched"

definition ok :: "response \<Rightarrow> bool" where
  "ok r = (200 \<le> code r \<and> code r \<le> 299)"

record handler =
  serverURL :: string
  mainzellisteApiVersion :: string

definition PseudonymHandler :: "string \<Rightarrow> string option \<Rightarrow> handler" where
  "PseudonymHandler server version =
     \<lparr>serverURL = server,
      mainzellisteApiVersion = (case version of None \<Rightarrow> ''3.0'' | Some v \<Rightarrow> v)\<rparr>"

section \<open>getPseudonym\<close>

definition birthDay :: "runtime \<Rightarrow> Patient \<Rightarrow> string" where
  "birthDay rt patient =
     (let s = show_int (getDate rt (birthday (idat patient)))
      in if length s = 1 then ''0'' @ s else s)"

definition birthMonth :: "runtime \<Rightarrow> Patient \<Rightarrow> string" where
  "birthMonth rt patient =
     (let s = show_int (getMonth rt (birthday (idat patient)) + 1)
      in if length s = 1 then ''0'' @ s else s)"

definition requestBody :: "runtime \<Rightarrow> Patient \<Rightarrow> string" where
  "requestBody rt patient =
     ''vorname='' @ firstname (idat patient) @
     ''&nachname='' @ lastname (idat patient) @
     ''&geburtstag='' @ birthDay rt patient @
     ''&geburtsmonat='' @ birthMonth rt patient @
     ''&geburtsjahr='' @ show_int (getFullYear rt (birthday (idat patient))) @
     ''&geburtsname='' @
     ''&plz='' @
     ''&ort='' @
     ''&sureness='' @ (if sureness patient then ''true'' else ''false'')"

definition pseudonymRequest :: "handler \<Rightarrow> runtime \<Rightarrow> Patient \<Rightarrow> request" where
  "pseudonymRequest h rt patient =
     \<lparr>url = tokenURL patient,
      verb = ''POST'',
      headers = [(''Content-Type'', ''application/x-www-form-urlencoded; charset=UTF-8''),
                 (''mainzellisteApiVersion'', mainzellisteApiVersion h)],
      body = Text (requestBody rt patient)\<rparr>"

text \<open>\<^verbatim>\<open>v.split(c)[i]\<close>: only a string has a split function.\<close>

definition splitIndex :: "jsval \<Rightarrow> char \<Rightarrow> nat \<Rightarrow> error + jsval" where
  "splitIndex v c i =
     (case v of Str s \<Rightarrow> getIndex (Arr (map Str (split c s))) i | _ \<Rightarrow> Inl TypeError)"

text \<open>
  The case 201 of the switch. A throw leaves the assignments made before it: the
  result is the thrown error or the returned value, and the patient as it then is.
\<close>

definition getPseudonym_201 ::
  "handler \<Rightarrow> Patient \<Rightarrow> jsval \<Rightarrow> response \<Rightarrow> (error + unit) \<times> Patient" where
  "getPseudonym_201 h patient requestURL resp =
     (case json resp of
        None \<Rightarrow> (Inl SyntaxError, patient)
      | Some responseBody \<Rightarrow>
          (case (if truthy (tokenUseCallback patient) then splitIndex requestURL CHR ''='' 1
                 else if mainzellisteApiVersion h = ''1.0'' then getProp responseBody ''newId''
                 else bindE (getIndex responseBody 0) (\<lambda>e. getProp e ''idString'')) of
             Inl e \<Rightarrow> (Inl e, patient)
           | Inr ps \<Rightarrow>
               (let p1 = patient\<lparr>pseudonym := ps, status := PSEUDONYMIZED\<rparr>
                in case bindE (getIndex responseBody 0) (\<lambda>e. getProp e ''tentative'') of
                     Inl e \<Rightarrow> (Inl e, p1)
                   | Inr t \<Rightarrow> (Inr (), p1\<lparr>tentative := t, tokenURL := Null\<rparr>))))"

text \<open>What getPseudonym does once \<^verbatim>\<open>await fetch(requestURL, options)\<close> has settled.\<close>

definition getPseudonym_handle ::
  "handler \<Rightarrow> Patient \<Rightarrow> fetched \<Rightarrow> (error + bool) \<times> Patient" where
  "getPseudonym_handle h patient f =
     (let requestURL = tokenURL patient
      in case f of
           Rejected \<Rightarrow> (Inl NetworkError, patient)
         | NoResponse \<Rightarrow> (Inl CantConnect, patient)
         | Got resp \<Rightarrow>
             (if code resp = 201 then
                (case getPseudonym_201 h patient requestURL resp of
                   (Inl e, p) \<Rightarrow> (Inl e, p)
                 | (Inr u, p) \<Rightarrow> (Inr (status p = PSEUDONYMIZED), p))
              else if code resp = 400 then
                (let p = patient\<lparr>status := IDAT_INVALID, tokenURL := requestURL\<rparr>
                 in (Inr (status p = PSEUDONYMIZED), p))
              else if code resp = 401 then
                (let p = patient\<lparr>status := TOKEN_INVALID, tokenURL := Null,
                                 tokenUseCallback := Null\<rparr>
                 in (Inr (status p = PSEUDONYMIZED), p))
              else if code resp = 409 then
                (let p = patient\<lparr>status := IDAT_CONFLICT, tokenURL := requestURL\<rparr>
                 in (Inr (status p = PSEUDONYMIZED), p))
              else (Inl (ResponseError (responseText resp)), patient)))"

definition getPseudonym ::
  "handler \<Rightarrow> runtime \<Rightarrow> net \<Rightarrow> request list \<Rightarrow> Patient
     \<Rightarrow> (error + bool) \<times> Patient \<times> request list" where
  "getPseudonym h rt fetch reqs patient =
     (let req = pseudonymRequest h rt patient;
          (r, p) = getPseudonym_handle h patient (fetch reqs req)
      in (r, p, reqs @ [req]))"

section \<open>createPseudonyms and resolveConflicts\<close>

text \<open>
  The patients are a \<^verbatim>\<open>Map\<close> from keys to patient objects, each key holding an
  object of its own; \<open>requests\<close> are the requests sent so far.
\<close>

record world =
  patients :: "jsval \<Rightarrow> Patient option"
  requests :: "request list"

definition getPseudonymizationURL ::
  "handler \<Rightarrow> net \<Rightarrow> request list \<Rightarrow> nat \<Rightarrow> (error + jsval) \<times> request list" where
  "getPseudonymizationURL h fetch reqs amount =
     (let req = \<lparr>url = Str (serverURL h @ ''/tokens/addPatient''),
                 verb = ''POST'',
                 headers = [(''Content-Type'', ''application/json'')],
                 body = Text (show_nat amount)\<rparr>
      in (case fetch reqs req of
            Rejected \<Rightarrow> Inl NetworkError
          | NoResponse \<Rightarrow> Inl ServerNotAvailable
          | Got resp \<Rightarrow>
              if \<not> ok resp then Inl (ResponseError (responseText resp))
              else (case json resp of None \<Rightarrow> Inl SyntaxError | Some j \<Rightarrow> Inr j),
          reqs @ [req]))"

text \<open>
  The loop of createPseudonyms from index \<open>i\<close> on, over the keys
  \<^verbatim>\<open>patientKeys[i], patientKeys[i+1], ...\<close>
\<close>

fun createPseudonyms_loop ::
  "handler \<Rightarrow> runtime \<Rightarrow> net \<Rightarrow> jsval \<Rightarrow> nat \<Rightarrow> jsval list \<Rightarrow> world
     \<Rightarrow> jsval list \<times> jsval list \<Rightarrow> (error + jsval list \<times> jsval list) \<times> world" where
  "createPseudonyms_loop h rt fetch resp i [] w acc = (Inr acc, w)"
| "createPseudonyms_loop h rt fetch resp i (key # keys) w (pseudonymized, conflicts) =
     (case patients w key of
        None \<Rightarrow> (Inl TypeError, w)
      | Some patient \<Rightarrow>
          (case getProp resp ''useCallback'' of
             Inl e \<Rightarrow> (Inl e, w)
           | Inr cb \<Rightarrow>
               (let p1 = patient\<lparr>tokenUseCallback := cb\<rparr>;
                    w1 = w\<lparr>patients := (patients w)(key \<mapsto> p1)\<rparr>
                in case bindE (getProp resp ''urlTokens'') (\<lambda>u. getIndex u i) of
                     Inl e \<Rightarrow> (Inl e, w1)
                   | Inr u \<Rightarrow>
                       (let p2 = p1\<lparr>tokenURL := u\<rparr>;
                            (r, p3, reqs) = getPseudonym h rt fetch (requests w1) p2;
                            w3 = \<lparr>patients = (patients w)(key \<mapsto> p3), requests = reqs\<rparr>
                        in case r of
                             Inl e \<Rightarrow> (Inl e, w3)
                           | Inr success \<Rightarrow>
                               createPseudonyms_loop h rt fetch resp (Suc i) keys w3
                                 (if success then (pseudonymized @ [key], conflicts)
                                  else (pseudonymized, conflicts @ [key]))))))"

definition createPseudonyms ::
  "handler \<Rightarrow> runtime \<Rightarrow> net \<Rightarrow> world \<Rightarrow> jsval list
     \<Rightarrow> (error + jsval list \<times> jsval list) \<times> world" where
  "createPseudonyms h rt fetch w patientKeys =
     (if length patientKeys \<noteq> 0 then
        (case getPseudonymizationURL h fetch (requests w) (length patientKeys) of
           (Inl e, reqs) \<Rightarrow> (Inl e, w\<lparr>requests := reqs\<rparr>)
         | (Inr resp, reqs) \<Rightarrow>
             createPseudonyms_loop h rt fetch resp 0 patientKeys (w\<lparr>requests := reqs\<rparr>) ([], []))
      else (Inr ([], []), w))"

text \<open>
  resolveConflicts reads \<^verbatim>\<open>patient.statusCode\<close>. A patient object has the
  properties status, sureness, pseudonym, idat, mdat, tentative, tokenURL and
  tokenUseCallback, and no property statusCode: the read gives undefined.
\<close>

definition statusCode :: "Patient \<Rightarrow> jsval" where
  "statusCode patient = Undefined"

fun resolveConflicts_loop ::
  "handler \<Rightarrow> runtime \<Rightarrow> net \<Rightarrow> jsval list \<Rightarrow> world
     \<Rightarrow> jsval list \<times> jsval list \<times> jsval list
     \<Rightarrow> (error + jsval list \<times> jsval list \<times> jsval list) \<times> world" where
  "resolveConflicts_loop h rt fetch [] w acc = (Inr acc, w)"
| "resolveConflicts_loop h rt fetch (key # keys) w (pseudonymized, conflicts, invalidTokens) =
     (case patients w key of
        None \<Rightarrow> (Inl TypeError, w)
      | Some patient \<Rightarrow>
          if statusCode patient = Num TOKEN_INVALID then
            resolveConflicts_loop h rt fetch keys w
              (pseudonymized, conflicts, invalidTokens @ [key])
          else
            (let (r, p, reqs) = getPseudonym h rt fetch (requests w) patient;
                 w1 = \<lparr>patients = (patients w)(key \<mapsto> p), requests = reqs\<rparr>
             in case r of
                  Inl e \<Rightarrow> (Inl e, w1)
                | Inr success \<Rightarrow>
                    resolveConflicts_loop h rt fetch keys w1
                      (if success then (pseudonymized @ [key], conflicts, invalidTokens)
                       else (pseudonymized, conflicts @ [key], invalidTokens))))"

text \<open>
  After the loop, the object returned by createPseudonyms is destructured into
  \<^verbatim>\<open>createdPseudonymized\<close> and \<^verbatim>\<open>createdConflicts\<close>; it has the properties
  pseudonymized and conflicts only, so both are undefined, and
  \<^verbatim>\<open>concat(undefined)\<close> appends undefined as one element.
\<close>

definition resolveConflicts ::
  "handler \<Rightarrow> runtime \<Rightarrow> net \<Rightarrow> world \<Rightarrow> jsval list
     \<Rightarrow> (error + jsval list \<times> jsval list) \<times> world" where
  "resolveConflicts h rt fetch w patientKeys =
     (case resolveConflicts_loop h rt fetch patientKeys w ([], [], []) of
        (Inl e, w1) \<Rightarrow> (Inl e, w1)
      | (Inr (pseudonymized, conflicts, invalidTokens), w1) \<Rightarrow>
          if length invalidTokens \<noteq> 0 then
            (case createPseudonyms h rt fetch w1 invalidTokens of
               (Inl e, w2) \<Rightarrow> (Inl e, w2)
             | (Inr created, w2) \<Rightarrow>
                 (let createdPseudonymized = Undefined;
                      createdConflicts = Undefined
                  in (Inr (pseudonymized @ [createdPseudonymized],
                           conflicts @ [createdConflicts]), w2)))
          else (Inr (pseudonymized, conflicts), w1))"

section \<open>Depseudonymization\<close>

text \<open>The requests that getDepseudonymizationURL and getPatientData send.\<close>

definition readTokenRequest :: "handler \<Rightarrow> jsval list \<Rightarrow> request" where
  "readTokenRequest h pseudonyms =
     \<lparr>url = Str (serverURL h @ ''/tokens/readPatients''),
      verb = ''POST'',
      headers = [(''Content-Type'', ''application/json'')],
      body = Json (Arr pseudonyms)\<rparr>"

definition patientDataRequest :: "handler \<Rightarrow> jsval \<Rightarrow> request" where
  "patientDataRequest h requestURL =
     \<lparr>url = requestURL,
      verb = ''GET'',
      headers = [(''mainzellisteApiVersion'', mainzellisteApiVersion h)],
      body = NoBody\<rparr>"

definition getDepseudonymizationURL ::
  "handler \<Rightarrow> net \<Rightarrow> request list \<Rightarrow> jsval list \<Rightarrow> (error + jsval) \<times> request list" where
  "getDepseudonymizationURL h fetch reqs pseudonyms =
     (let req = readTokenRequest h pseudonyms
      in (case fetch reqs req of
            Rejected \<Rightarrow> Inl NetworkError
          | NoResponse \<Rightarrow> Inl ServerNotAvailable
          | Got resp \<Rightarrow>
              if \<not> ok resp then Inl (ResponseError (responseText resp))
              else (case json resp of None \<Rightarrow> Inl SyntaxError | Some j \<Rightarrow> Inr j),
          reqs @ [req]))"

definition getPatientData ::
  "handler \<Rightarrow> net \<Rightarrow> request list \<Rightarrow> jsval \<Rightarrow> (error + jsval) \<times> request list" where
  "getPatientData h fetch reqs requestURL =
     (let req = patientDataRequest h requestURL
      in (case fetch reqs req of
            Rejected \<Rightarrow> Inl NetworkError
          | NoResponse \<Rightarrow> Inl CantConnect
          | Got resp \<Rightarrow>
              if \<not> ok resp then Inl (ResponseError (responseText resp))
              else (case json resp of None \<Rightarrow> Inl SyntaxError | Some j \<Rightarrow> Inr j),
          reqs @ [req]))"

text \<open>
  A \<^verbatim>\<open>Map\<close> compares keys by SameValueZero: undefined, null, booleans, numbers and
  strings by their value, arrays and objects by identity. \<open>sameValueZero k k'\<close>
  compares a new key \<open>k\<close> with a key \<open>k'\<close> that is in the map already; the two
  come out of different places of a parsed body, so an array or an object is the
  same as no key of the map.
\<close>

definition primitive :: "jsval \<Rightarrow> bool" where
  "primitive v = (case v of Arr xs \<Rightarrow> False | Obj kvs \<Rightarrow> False | _ \<Rightarrow> True)"

definition sameValueZero :: "jsval \<Rightarrow> jsval \<Rightarrow> bool" where
  "sameValueZero k k' = (primitive k \<and> k = k')"

text \<open>
  The result \<^verbatim>\<open>Map\<close>, in insertion order: \<^verbatim>\<open>set\<close> replaces the value of a key that
  is present and appends a key that is not.
\<close>

fun mapSet :: "jsval \<Rightarrow> 'v \<Rightarrow> (jsval \<times> 'v) list \<Rightarrow> (jsval \<times> 'v) list" where
  "mapSet k v [] = [(k, v)]"
| "mapSet k v ((k', v') # kvs) =
     (if sameValueZero k k' then (k', v) # kvs else (k', v') # mapSet k v kvs)"

text \<open>\<^verbatim>\<open>entry.fields.name\<close> and \<^verbatim>\<open>entry.ids[0].name\<close>.\<close>

definition entryField :: "jsval \<Rightarrow> string \<Rightarrow> error + jsval" where
  "entryField entry name = bindE (getProp entry ''fields'') (\<lambda>f. getProp f name)"

definition entryId :: "jsval \<Rightarrow> string \<Rightarrow> error + jsval" where
  "entryId entry name =
     bindE (getProp entry ''ids'') (\<lambda>ids. bindE (getIndex ids 0) (\<lambda>i. getProp i name))"

text \<open>The body of the loop over the response array.\<close>

definition depseudonymizeEntry ::
  "runtime \<Rightarrow> jsval \<Rightarrow> (jsval \<times> IDAT \<times> jsval) list \<Rightarrow> error + (jsval \<times> IDAT \<times> jsval) list" where
  "depseudonymizeEntry rt entry depseudonymized =
     bindE (entryId entry ''idString'') (\<lambda>pseudonym.
     bindE (entryField entry ''vorname'') (\<lambda>vorname.
     bindE (entryField entry ''nachname'') (\<lambda>nachname.
     bindE (entryField entry ''geburtsjahr'') (\<lambda>geburtsjahr.
     bindE (toStr geburtsjahr) (\<lambda>year.
     bindE (entryField entry ''geburtsmonat'') (\<lambda>geburtsmonat.
     bindE (toStr geburtsmonat) (\<lambda>month.
     bindE (entryField entry ''geburtstag'') (\<lambda>geburtstag.
     bindE (toStr geburtstag) (\<lambda>day.
     bindE (createIDAT rt vorname nachname (Val (Str (year @ ''-'' @ month @ ''-'' @ day))))
       (\<lambda>idat.
     bindE (entryId entry ''tentative'') (\<lambda>tentative.
     Inr (mapSet pseudonym (idat, tentative) depseudonymized))))))))))))"

fun handleDepseudonymization_loop ::
  "runtime \<Rightarrow> jsval list \<Rightarrow> (jsval \<times> IDAT \<times> jsval) list
     \<Rightarrow> error + (jsval \<times> IDAT \<times> jsval) list" where
  "handleDepseudonymization_loop rt [] depseudonymized = Inr depseudonymized"
| "handleDepseudonymization_loop rt (entry # entries) depseudonymized =
     bindE (depseudonymizeEntry rt entry depseudonymized)
       (handleDepseudonymization_loop rt entries)"

text \<open>What \<^verbatim>\<open>for (const entry of v)\<close> iterates over.\<close>

definition iterate :: "jsval \<Rightarrow> error + jsval list" where
  "iterate v =
     (case v of
        Arr xs \<Rightarrow> Inr xs
      | Str s \<Rightarrow> Inr (map (\<lambda>c. Str [c]) s)
      | _ \<Rightarrow> Inl TypeError)"

definition handleDepseudonymization ::
  "handler \<Rightarrow> runtime \<Rightarrow> net \<Rightarrow> request list \<Rightarrow> jsval list
     \<Rightarrow> (error + (jsval \<times> IDAT \<times> jsval) list \<times> jsval) \<times> request list" where
  "handleDepseudonymization h rt fetch reqs pseudonyms =
     (if length pseudonyms = 0 then (Inr ([], Arr []), reqs)
      else
        (case getDepseudonymizationURL h fetch reqs pseudonyms of
           (Inl e, reqs1) \<Rightarrow> (Inl e, reqs1)
         | (Inr j, reqs1) \<Rightarrow>
             (case bindE (getProp j ''url'') (\<lambda>u.
                   bindE (getProp j ''invalidPseudonyms'') (\<lambda>inv. Inr (u, inv))) of
                Inl e \<Rightarrow> (Inl e, reqs1)
              | Inr (u, invalidPseudonyms) \<Rightarrow>
                  if u = Str [] then (Inr ([], invalidPseudonyms), reqs1)
                  else
                    (case getPatientData h fetch reqs1 u of
                       (Inl e, reqs2) \<Rightarrow> (Inl e, reqs2)
                     | (Inr responseArray, reqs2) \<Rightarrow>
                         (bindE (iterate responseArray) (\<lambda>entries.
                          bindE (handleDepseudonymization_loop rt entries []) (\<lambda>depseudonymized.
                          Inr (depseudonymized, invalidPseudonyms))), reqs2)))))"

definition depseudonymize ::
  "handler \<Rightarrow> runtime \<Rightarrow> net \<Rightarrow> request list \<Rightarrow> jsval
     \<Rightarrow> (error + (jsval \<times> IDAT \<times> jsval) list \<times> jsval) \<times> request list" where
  "depseudonymize h rt fetch reqs pseudonyms =
     handleDepseudonymization h rt fetch reqs
       (case pseudonyms of Arr ps \<Rightarrow> ps | v \<Rightarrow> [v])"

section \<open>The operations on one patient\<close>

text \<open>
  The bodies of the loops of send and request, for one patient: \<open>success\<close> is
  \<^verbatim>\<open>successArray[patient.pseudonym]\<close>, \<open>corresponding\<close> is the mdat of the received
  patient with the same pseudonym, if there is one.
\<close>

definition send_patient :: "Patient \<Rightarrow> jsval \<Rightarrow> Patient" where
  "send_patient patient success =
     patient\<lparr>status := (if truthy success then PROCESSED else NOT_PROCESSED)\<rparr>"

definition request_patient :: "Patient \<Rightarrow> string option \<Rightarrow> Patient" where
  "request_patient patient corresponding =
     (case corresponding of
        None \<Rightarrow> patient\<lparr>status := NOT_FOUND\<rparr>
      | Some m \<Rightarrow> patient\<lparr>mdat := m, status := FOUND\<rparr>)"

text \<open>
  Everything the service does to a patient object after createPatient: updateIDAT,
  updateMDAT, the two assignments of createPseudonyms (tokenUseCallback, tokenURL),
  getPseudonym on the answer of the Mainzelliste, and the loop bodies of send and
  request. \<open>apply_op\<close> gives the patient as the operation leaves it, also when the
  operation throws.
\<close>

datatype operation =
    UpdateIDAT jsval jsval birthday_arg
  | UpdateMDAT "string option"
  | AssignToken jsval jsval
  | GetPseudonym fetched
  | Send jsval
  | Request "string option"

fun apply_op :: "handler \<Rightarrow> runtime \<Rightarrow> Patient \<Rightarrow> operation \<Rightarrow> Patient" where
  "apply_op h rt patient (UpdateIDAT fn ln bd) =
     (case updateIDAT rt patient fn ln bd of Inl e \<Rightarrow> patient | Inr p \<Rightarrow> p)"
| "apply_op h rt patient (UpdateMDAT md) = updateMDAT patient md"
| "apply_op h rt patient (AssignToken cb u) = patient\<lparr>tokenUseCallback := cb, tokenURL := u\<rparr>"
| "apply_op h rt patient (GetPseudonym f) = snd (getPseudonym_handle h patient f)"
| "apply_op h rt patient (Send success) = send_patient patient success"
| "apply_op h rt patient (Request corresponding) = request_patient patient corresponding"

fun apply_ops :: "handler \<Rightarrow> runtime \<Rightarrow> Patient \<Rightarrow> operation list \<Rightarrow> Patient" where
  "apply_ops h rt patient [] = patient"
| "apply_ops h rt patient (x # xs) = apply_ops h rt (apply_op h rt patient x) xs"

section \<open>The token endpoint of the server (PseudonymizationController)\<close>









section \<open>Sample data\<close>

text \<open>
  A runtime one hour east of UTC, a handler with the default API version and one
  for version 1.0, and a patient born on 2000-01-01, local time.
\<close>

definition sample_runtime :: runtime where
  "sample_runtime =
     \<lparr>now = 1700000000000, zone = (\<lambda>t. 3600000), legacyParse = (\<lambda>s. None)\<rparr>"

definition sample_handler :: handler where
  "sample_handler = PseudonymHandler ''https://server'' None"

definition sample_handler_v1 :: handler where
  "sample_handler_v1 = PseudonymHandler ''https://server'' (Some ''1.0'')"

definition sample_idat :: IDAT where
  "sample_idat = \<lparr>firstname = ''Max'', lastname = ''Muster'', birthday = 946681200000\<rparr>"

definition sample_patient :: Patient where
  "sample_patient =
     \<lparr>status = CREATED, sureness = False, pseudonym = Null, idat = sample_idat,
      mdat = [], tentative = Bool False, tokenURL = Null, tokenUseCallback = Null\<rparr>"

definition sample_token :: jsval where
  "sample_token = Str ''https://ml/patients?tokenId=t1''"

definition response_201 :: response where
  "response_201 =
     \<lparr>code = 201,
      json = Some (Arr [Obj [(''idType'', Str ''pid''), (''idString'', Str ''p1''),
                             (''tentative'', Bool False)]]),
      responseText = []\<rparr>"

definition response_201_v1 :: response where
  "response_201_v1 =
     \<lparr>code = 201,
      json = Some (Obj [(''newId'', Str ''p1''), (''tentative'', Bool False)]),
      responseText = []\<rparr>"

definition response_201_v1_tentative :: response where
  "response_201_v1_tentative =
     \<lparr>code = 201,
      json = Some (Obj [(''newId'', Str ''p1''), (''tentative'', Bool True)]),
      responseText = []\<rparr>"

definition response_status :: "int \<Rightarrow> response" where
  "response_status c = \<lparr>code = c, json = None, responseText = ''message''\<rparr>"

definition sample_readURL :: string where
  "sample_readURL = ''https://ml/patients/tokenId/r1''"

definition sample_token2 :: jsval where
  "sample_token2 = Str ''https://ml/patients?tokenId=t2''"

definition response_201_p2 :: response where
  "response_201_p2 =
     \<lparr>code = 201,
      json = Some (Arr [Obj [(''idType'', Str ''pid''), (''idString'', Str ''p2''),
                             (''tentative'', Bool False)]]),
      responseText = []\<rparr>"

text \<open>
  Services that issue one token URL when one is asked for and two otherwise, accept
  an identity submitted with one of these tokens, and answer 404 anywhere else.
\<close>

definition sample_net :: net where
  "sample_net reqs req =
     (if url req = Str ''https://server/tokens/addPatient'' then
        Got \<lparr>code = 200,
             json = Some (Obj [(''useCallback'', Bool False),
                               (''urlTokens'',
                                 Arr (if body req = Text ''1'' then [sample_token]
                                      else [sample_token, sample_token2]))]),
             responseText = []\<rparr>
      else if url req = sample_token then Got response_201
      else if url req = sample_token2 then Got response_201_p2
      else Got (response_status 404))"

text \<open>A patient whose token was refused (401) by an earlier submission.\<close>

definition sample_world :: world where
  "sample_world =
     \<lparr>patients = (\<lambda>k. if k = Str ''k1'' then Some (sample_patient\<lparr>status := TOKEN_INVALID\<rparr>)
                     else None),
      requests = []\<rparr>"


text \<open>
  A history of one patient: the token assignment of createPseudonyms with a
  callback token, the submission answered with 201, the status assignment of
  send, and an updateMDAT.
\<close>

definition sample_history :: "operation list" where
  "sample_history =
     [AssignToken (Bool True) sample_token, GetPseudonym (Got response_201), Send (Bool True),
      UpdateMDAT (Some ''{}'')]"


text \<open>
  Services for reading: the token request is answered with a read URL and no
  invalid pseudonym, the read with the fields submitted for the sample patient
  (see \<open>requestBody\<close>), stored under the pseudonym p1.
\<close>

definition sample_read_net :: net where
  "sample_read_net reqs req =
     (if url req = Str ''https://server/tokens/readPatients'' then
        Got \<lparr>code = 200,
             json = Some (Obj [(''url'', Str sample_readURL), (''invalidPseudonyms'', Arr [])]),
             responseText = []\<rparr>
      else if url req = Str sample_readURL then
        Got \<lparr>code = 200,
             json = Some (Arr [Obj [(''fields'',
                                      Obj [(''vorname'', Str ''Max''),
                                           (''nachname'', Str ''Muster''),
                                           (''geburtstag'', Str ''01''),
                                           (''geburtsmonat'', Str ''01''),
                                           (''geburtsjahr'', Str ''2000'')]),
                                    (''ids'',
                                      Arr [Obj [(''idType'', Str ''pid''),
                                                (''idString'', Str ''p1''),
                                                (''tentative'', Bool False)]])]]),
             responseText = []\<rparr>
      else Got (response_status 404))"






section \<open>Redeeming a token\<close>

text \<open>\<^verbatim>\<open>response.urlTokens[i]\<close>, as createPseudonyms reads it from the token answer.\<close>

definition urlToken :: "jsval \<Rightarrow> nat \<Rightarrow> error + jsval" where
  "urlToken resp i = bindE (getProp resp ''urlTokens'') (\<lambda>u. getIndex u i)"


section \<open>Properties\<close>

subsection \<open>Auxiliary facts\<close>

lemma stringOf_Str [simp]: "stringOf (Str s) = s"
  by (simp add: stringOf_def)

lemma typeof_string: "typeof v = ''string'' \<longleftrightarrow> (\<exists>s. v = Str s)"
  by (cases v) auto

lemma typeof_number: "typeof v = ''number'' \<longleftrightarrow> (\<exists>n. v = Num n)"
  by (cases v) auto

lemma createIDAT_Inr:
  "createIDAT rt fn ln bd = Inr i \<longleftrightarrow>
     (\<exists>f l t. fn = Str f \<and> ln = Str l \<and> trim f \<noteq> [] \<and> trim l \<noteq> [] \<and>
        ((\<exists>s. bd = Val (Str s)) \<or> (\<exists>n. bd = Val (Num n)) \<or> (\<exists>t. bd = DateObj t)) \<and>
        newDate rt bd = Some t \<and> t \<le> now rt \<and>
        i = \<lparr>firstname = trim f, lastname = trim l, birthday = t\<rparr>)"
  by (cases bd) (auto simp: createIDAT_def typeof_string typeof_number split: option.splits)

lemma trim_samples:
  "trim '' Max'' = ''Max''" "trim ''Muster '' = ''Muster''" "trim ''  '' = []"
  "trim ''Max'' = ''Max''" "trim ''Muster'' = ''Muster''" "trim ''Moritz'' = ''Moritz''"
  by (simp_all add: trim_def isWhiteSpace_def)

lemma split_sample_token:
  "split CHR ''='' ''https://ml/patients?tokenId=t1'' = [''https://ml/patients?tokenId'', ''t1'']"
  by simp

subsection \<open>The outcomes of getPseudonym\<close>

text \<open>
  The outcome table where the answer can be read. On 201, for a body whose element
  0 exists and holds the tentative flag, the status becomes PSEUDONYMIZED, the
  tentative flag is the one of that element, the pseudonym is the part of the
  token URL after its first \<^verbatim>\<open>=\<close> when the token uses the callback and is read from
  the body otherwise (\<^verbatim>\<open>newId\<close> under API version 1.0, \<^verbatim>\<open>idString\<close> of element 0
  else), and tokenURL becomes null. On 400 the status becomes IDAT\_INVALID and on
  409 IDAT\_CONFLICT, tokenURL being set to the request URL, which is the token the
  patient had; on 401 the status becomes TOKEN\_INVALID and tokenURL null.
\<close>

lemma getPseudonym_outcome_table:
  assumes "fetch reqs (pseudonymRequest h rt patient) = Got resp"
  shows "(code resp = 201 \<longrightarrow> json resp = Some b \<longrightarrow> getIndex b 0 = Inr e \<longrightarrow>
            getProp e ''tentative'' = Inr t \<longrightarrow>
            (if truthy (tokenUseCallback patient) then splitIndex (tokenURL patient) CHR ''='' 1
             else if mainzellisteApiVersion h = ''1.0'' then getProp b ''newId''
             else getProp e ''idString'') = Inr ps \<longrightarrow>
            getPseudonym h rt fetch reqs patient =
              (Inr True,
               patient\<lparr>pseudonym := ps, status := PSEUDONYMIZED, tentative := t, tokenURL := Null\<rparr>,
               reqs @ [pseudonymRequest h rt patient])) \<and>
         (code resp = 400 \<longrightarrow>
            getPseudonym h rt fetch reqs patient =
              (Inr False, patient\<lparr>status := IDAT_INVALID, tokenURL := tokenURL patient\<rparr>,
               reqs @ [pseudonymRequest h rt patient])) \<and>
         (code resp = 401 \<longrightarrow>
            getPseudonym h rt fetch reqs patient =
              (Inr False,
               patient\<lparr>status := TOKEN_INVALID, tokenURL := Null, tokenUseCallback := Null\<rparr>,
               reqs @ [pseudonymRequest h rt patient])) \<and>
         (code resp = 409 \<longrightarrow>
            getPseudonym h rt fetch reqs patient =
              (Inr False, patient\<lparr>status := IDAT_CONFLICT, tokenURL := tokenURL patient\<rparr>,
               reqs @ [pseudonymRequest h rt patient]))"
  using assms
  by (auto simp: getPseudonym_def getPseudonym_handle_def getPseudonym_201_def bindE_def
      PatientStatus_defs Let_def)

lemma getPseudonym_outcome_table_sample:
  "getPseudonym sample_handler sample_runtime (\<lambda>reqs req. Got response_201) []
      (sample_patient\<lparr>tokenURL := sample_token, tokenUseCallback := Bool True\<rparr>) =
     (Inr True,
      sample_patient\<lparr>pseudonym := Str ''t1'', status := PSEUDONYMIZED, tentative := Bool False,
                      tokenURL := Null, tokenUseCallback := Bool True\<rparr>,
      [pseudonymRequest sample_handler sample_runtime
         (sample_patient\<lparr>tokenURL := sample_token, tokenUseCallback := Bool True\<rparr>)]) \<and>
   getPseudonym sample_handler sample_runtime (\<lambda>reqs req. Got response_201) []
      (sample_patient\<lparr>tokenURL := sample_token, tokenUseCallback := Bool False\<rparr>) =
     (Inr True,
      sample_patient\<lparr>pseudonym := Str ''p1'', status := PSEUDONYMIZED, tentative := Bool False,
                      tokenURL := Null, tokenUseCallback := Bool False\<rparr>,
      [pseudonymRequest sample_handler sample_runtime
         (sample_patient\<lparr>tokenURL := sample_token, tokenUseCallback := Bool False\<rparr>)]) \<and>
   getPseudonym sample_handler sample_runtime (\<lambda>reqs req. Got (response_status 409)) []
      (sample_patient\<lparr>tokenURL := sample_token, tokenUseCallback := Bool False\<rparr>) =
     (Inr False,
      sample_patient\<lparr>status := IDAT_CONFLICT, tokenURL := sample_token,
                      tokenUseCallback := Bool False\<rparr>,
      [pseudonymRequest sample_handler sample_runtime
         (sample_patient\<lparr>tokenURL := sample_token, tokenUseCallback := Bool False\<rparr>)])"
  using getPseudonym_outcome_table [where fetch = "\<lambda>reqs req. Got response_201" and reqs = "[]"
      and h = sample_handler and rt = sample_runtime
      and patient = "sample_patient\<lparr>tokenURL := sample_token, tokenUseCallback := Bool True\<rparr>"
      and resp = response_201
      and b = "Arr [Obj [(''idType'', Str ''pid''), (''idString'', Str ''p1''),
                         (''tentative'', Bool False)]]"
      and e = "Obj [(''idType'', Str ''pid''), (''idString'', Str ''p1''),
                    (''tentative'', Bool False)]"
      and t = "Bool False" and ps = "Str ''t1''"]
    getPseudonym_outcome_table [where fetch = "\<lambda>reqs req. Got response_201" and reqs = "[]"
      and h = sample_handler and rt = sample_runtime
      and patient = "sample_patient\<lparr>tokenURL := sample_token, tokenUseCallback := Bool False\<rparr>"
      and resp = response_201
      and b = "Arr [Obj [(''idType'', Str ''pid''), (''idString'', Str ''p1''),
                         (''tentative'', Bool False)]]"
      and e = "Obj [(''idType'', Str ''pid''), (''idString'', Str ''p1''),
                    (''tentative'', Bool False)]"
      and t = "Bool False" and ps = "Str ''p1''"]
    getPseudonym_outcome_table [where fetch = "\<lambda>reqs req. Got (response_status 409)"
      and reqs = "[]" and h = sample_handler and rt = sample_runtime
      and patient = "sample_patient\<lparr>tokenURL := sample_token, tokenUseCallback := Bool False\<rparr>"
      and resp = "response_status 409"]
  by (simp add: response_201_def response_status_def sample_token_def splitIndex_def
      split_sample_token sample_handler_def PseudonymHandler_def)

lemma getPseudonym_unknown_status:
  assumes "fetch reqs (pseudonymRequest h rt patient) = Got resp"
      and "code resp \<noteq> 201" "code resp \<noteq> 400" "code resp \<noteq> 401" "code resp \<noteq> 409"
  shows "getPseudonym h rt fetch reqs patient =
           (Inl (ResponseError (responseText resp)), patient,
            reqs @ [pseudonymRequest h rt patient])"
  using assms by (simp add: getPseudonym_def getPseudonym_handle_def)

lemma getPseudonym_no_response:
  "fetch reqs (pseudonymRequest h rt patient) = NoResponse \<Longrightarrow>
   getPseudonym h rt fetch reqs patient =
     (Inl CantConnect, patient, reqs @ [pseudonymRequest h rt patient])"
  "fetch reqs (pseudonymRequest h rt patient) = Rejected \<Longrightarrow>
   getPseudonym h rt fetch reqs patient =
     (Inl NetworkError, patient, reqs @ [pseudonymRequest h rt patient])"
  by (simp_all add: getPseudonym_def getPseudonym_handle_def)

text \<open>
  Under API version 1.0, without callback, a 201 gives the patient a pseudonym and
  returns only for a body that is an object with both a property \<^verbatim>\<open>newId\<close> and a
  property \<^verbatim>\<open>0\<close>: neither the array of the later versions nor an object that
  carries \<^verbatim>\<open>newId\<close> and \<^verbatim>\<open>tentative\<close> will do.
\<close>

lemma getPseudonym_v1_body:
  assumes v: "mainzellisteApiVersion h = ''1.0''"
      and c: "\<not> truthy (tokenUseCallback patient)"
      and r: "code resp = 201" and j: "json resp = Some b"
      and g: "getPseudonym_handle h patient (Got resp) = (Inr True, p)"
      and d: "pseudonym p \<noteq> Undefined"
  shows "\<exists>kvs. b = Obj kvs \<and> map_of kvs ''newId'' \<noteq> None \<and> map_of kvs ''0'' \<noteq> None"
proof (cases b)
  case (Obj kvs)
  from g r j v c d Obj show ?thesis
    by (auto simp: getPseudonym_handle_def getPseudonym_201_def bindE_def digit_def Let_def
        split: sum.splits option.splits if_splits)
qed (use g r j v c d in \<open>auto simp: getPseudonym_handle_def getPseudonym_201_def bindE_def
        Let_def split: sum.splits option.splits if_splits\<close>)

text \<open>
  Claim C1. Each of the four defined answers is to update the submitted patient as
  the outcome table says; on 201: status PSEUDONYMIZED, pseudonym and tentative
  flag from the body, tokenURL null. The rows 400, 401 and 409 hold, and so does
  the row 201 when element 0 of the body can be read (see above). Under API
  version 1.0 the body is the object that carries \<^verbatim>\<open>newId\<close>: the pseudonym and the
  status are assigned, then reading \<^verbatim>\<open>responseBody[0].tentative\<close> throws, so the
  tentative flag of the body (true here) is not taken and the token is not
  discarded.
\<close>

theorem getPseudonym_v1_record:
  "(case getPseudonym sample_handler_v1 sample_runtime (\<lambda>reqs req. Got response_201_v1_tentative)
           [] (sample_patient\<lparr>tokenURL := sample_token, tokenUseCallback := Bool False\<rparr>) of
      (r, p, reqs') \<Rightarrow>
        status p = PSEUDONYMIZED \<and> pseudonym p = Str ''p1'' \<and>
        tentative p = Bool False \<and> tokenURL p = sample_token)"
  by (simp add: getPseudonym_def getPseudonym_handle_def getPseudonym_201_def bindE_def
      response_201_v1_tentative_def sample_handler_v1_def PseudonymHandler_def sample_patient_def
      Let_def)

text \<open>
  Claim C10. When the Mainzelliste answers 400, 401 or 409, getPseudonym returns
  false and leaves pseudonym, idat, mdat, sureness and tentative of the patient as
  they were; only status, tokenURL and, on 401 alone, tokenUseCallback are
  assigned.
\<close>

theorem getPseudonym_failure_frame:
  "fetch reqs (pseudonymRequest h rt patient) = Got resp \<Longrightarrow>
   code resp = 400 \<or> code resp = 401 \<or> code resp = 409 \<Longrightarrow>
   (case getPseudonym h rt fetch reqs patient of
      (r, p, reqs') \<Rightarrow>
        r = Inr False \<and>
        pseudonym p = pseudonym patient \<and> idat p = idat patient \<and> mdat p = mdat patient \<and>
        sureness p = sureness patient \<and> tentative p = tentative patient \<and>
        (code resp \<noteq> 401 \<longrightarrow> tokenUseCallback p = tokenUseCallback patient) \<and>
        p = patient\<lparr>status := status p, tokenURL := tokenURL p,
                     tokenUseCallback := tokenUseCallback p\<rparr>)"
  by (auto simp: getPseudonym_def getPseudonym_handle_def PatientStatus_defs Let_def)

theorem getPseudonym_failure_frame_witness:
  "(case getPseudonym sample_handler sample_runtime (\<lambda>reqs req. Got (response_status 401)) []
           (sample_patient\<lparr>tokenURL := sample_token, tokenUseCallback := Bool True\<rparr>) of
      (r, p, reqs') \<Rightarrow>
        r = Inr False \<and> status p = TOKEN_INVALID \<and> tokenURL p = Null \<and>
        tokenUseCallback p = Null \<and> pseudonym p = Null \<and> idat p = sample_idat \<and>
        mdat p = [] \<and> sureness p = False \<and> tentative p = Bool False)"
  using getPseudonym_failure_frame [of "\<lambda>reqs req. Got (response_status 401)" "[]"
      sample_handler sample_runtime
      "sample_patient\<lparr>tokenURL := sample_token, tokenUseCallback := Bool True\<rparr>"
      "response_status 401"]
  by (simp add: response_status_def sample_patient_def getPseudonym_def getPseudonym_handle_def
      PatientStatus_defs Let_def)

subsection \<open>Identity data\<close>

text \<open>
  Claim C6. For a patient whose status is greater than 0, updateIDAT with identity
  data that pass createIDAT and differ from the current idat in some field resets
  the pseudonym to null and the status to CREATED; when the validated idat equals
  the current one field by field (the birthdays by their time values), pseudonym
  and status stay. In both cases the idat of the patient becomes the validated one.
\<close>

theorem updateIDAT_reset:
  assumes "status patient > 0" and "createIDAT rt fn ln bd = Inr i"
  shows "updateIDAT rt patient fn ln bd =
           Inr (if firstname i = firstname (idat patient) \<and>
                   lastname i = lastname (idat patient) \<and>
                   birthday i = birthday (idat patient)
                then patient\<lparr>idat := i\<rparr>
                else patient\<lparr>pseudonym := Null, status := CREATED, idat := i\<rparr>)"
  using assms by (auto simp: updateIDAT_def Let_def)

theorem updateIDAT_reset_witness:
  "0 < status (sample_patient\<lparr>status := PSEUDONYMIZED, pseudonym := Str ''p1''\<rparr>) \<and>
   createIDAT sample_runtime (Str ''Moritz'') (Str ''Muster'') (DateObj (Some 946681200000)) =
     Inr (sample_idat\<lparr>firstname := ''Moritz''\<rparr>) \<and>
   updateIDAT sample_runtime (sample_patient\<lparr>status := PSEUDONYMIZED, pseudonym := Str ''p1''\<rparr>)
       (Str ''Moritz'') (Str ''Muster'') (DateObj (Some 946681200000)) =
     Inr (sample_patient\<lparr>idat := sample_idat\<lparr>firstname := ''Moritz''\<rparr>\<rparr>) \<and>
   createIDAT sample_runtime (Str '' Max'') (Str ''Muster '') (DateObj (Some 946681200000)) =
     Inr sample_idat \<and>
   updateIDAT sample_runtime (sample_patient\<lparr>status := PSEUDONYMIZED, pseudonym := Str ''p1''\<rparr>)
       (Str '' Max'') (Str ''Muster '') (DateObj (Some 946681200000)) =
     Inr (sample_patient\<lparr>status := PSEUDONYMIZED, pseudonym := Str ''p1''\<rparr>)"
proof -
  let ?p = "sample_patient\<lparr>status := PSEUDONYMIZED, pseudonym := Str ''p1''\<rparr>"
  have s: "0 < status ?p"
    by (simp add: PSEUDONYMIZED_def)
  have c1: "createIDAT sample_runtime (Str ''Moritz'') (Str ''Muster'')
              (DateObj (Some 946681200000)) = Inr (sample_idat\<lparr>firstname := ''Moritz''\<rparr>)"
    by (simp add: createIDAT_def trim_samples sample_runtime_def sample_idat_def)
  have c2: "createIDAT sample_runtime (Str '' Max'') (Str ''Muster '')
              (DateObj (Some 946681200000)) = Inr sample_idat"
    by (simp add: createIDAT_def trim_samples sample_runtime_def sample_idat_def)
  have u1: "updateIDAT sample_runtime ?p (Str ''Moritz'') (Str ''Muster'')
              (DateObj (Some 946681200000)) =
            Inr (sample_patient\<lparr>idat := sample_idat\<lparr>firstname := ''Moritz''\<rparr>\<rparr>)"
    using updateIDAT_reset [OF s c1]
    by (simp add: sample_patient_def sample_idat_def CREATED_def)
  have u2: "updateIDAT sample_runtime ?p (Str '' Max'') (Str ''Muster '')
              (DateObj (Some 946681200000)) = Inr ?p"
    using updateIDAT_reset [OF s c2]
    by (simp add: sample_patient_def)
  from s c1 c2 u1 u2 show ?thesis by blast
qed

text \<open>
  Claim C7. createIDAT throws exactly when the firstname or the lastname is not a
  string or trims to the empty string, or the birthday is not a string, a number
  or a Date, or it gives an invalid date, or a date later than now. Otherwise it
  returns the IDAT of the trimmed names and the parsed date. createPatient calls
  it first: it throws whenever createIDAT does, and the idat of a patient it
  returns is the one createIDAT returns.
\<close>

theorem createIDAT_validation:
  "((\<exists>e. createIDAT rt fn ln bd = Inl e) \<longleftrightarrow>
      \<not> (\<exists>f. fn = Str f \<and> trim f \<noteq> []) \<or> \<not> (\<exists>l. ln = Str l \<and> trim l \<noteq> []) \<or>
      \<not> ((\<exists>s. bd = Val (Str s)) \<or> (\<exists>n. bd = Val (Num n)) \<or> (\<exists>t. bd = DateObj t)) \<or>
      newDate rt bd = None \<or> (\<exists>t. newDate rt bd = Some t \<and> now rt < t)) \<and>
   (\<forall>i. createIDAT rt fn ln bd = Inr i \<longrightarrow>
      (\<exists>f l t. fn = Str f \<and> ln = Str l \<and> newDate rt bd = Some t \<and>
         i = \<lparr>firstname = trim f, lastname = trim l, birthday = t\<rparr>)) \<and>
   (\<forall>md p. createPatient rt fn ln bd md = Inr p \<longrightarrow> createIDAT rt fn ln bd = Inr (idat p)) \<and>
   (\<forall>md e. createIDAT rt fn ln bd = Inl e \<longrightarrow> createPatient rt fn ln bd md = Inl e)"
proof -
  have throws: "(\<exists>e. createIDAT rt fn ln bd = Inl e) \<longleftrightarrow> \<not> (\<exists>i. createIDAT rt fn ln bd = Inr i)"
    by (cases "createIDAT rt fn ln bd") auto
  have a: "(\<exists>e. createIDAT rt fn ln bd = Inl e) \<longleftrightarrow>
      \<not> (\<exists>f. fn = Str f \<and> trim f \<noteq> []) \<or> \<not> (\<exists>l. ln = Str l \<and> trim l \<noteq> []) \<or>
      \<not> ((\<exists>s. bd = Val (Str s)) \<or> (\<exists>n. bd = Val (Num n)) \<or> (\<exists>t. bd = DateObj t)) \<or>
      newDate rt bd = None \<or> (\<exists>t. newDate rt bd = Some t \<and> now rt < t)"
    unfolding throws createIDAT_Inr by (cases "newDate rt bd") force+
  have b: "\<forall>i. createIDAT rt fn ln bd = Inr i \<longrightarrow>
      (\<exists>f l t. fn = Str f \<and> ln = Str l \<and> newDate rt bd = Some t \<and>
         i = \<lparr>firstname = trim f, lastname = trim l, birthday = t\<rparr>)"
    unfolding createIDAT_Inr by blast
  have c: "\<forall>md p. createPatient rt fn ln bd md = Inr p \<longrightarrow>
             createIDAT rt fn ln bd = Inr (idat p)"
    by (auto simp: createPatient_def Let_def split: sum.splits if_splits)
  have d: "\<forall>md e. createIDAT rt fn ln bd = Inl e \<longrightarrow> createPatient rt fn ln bd md = Inl e"
    by (simp add: createPatient_def)
  from a b c d show ?thesis by blast
qed

theorem createIDAT_validation_witness:
  "(\<exists>e. createIDAT sample_runtime (Str ''  '') (Str ''Muster'')
          (DateObj (Some 946681200000)) = Inl e) \<and>
   (\<exists>e. createIDAT sample_runtime (Str ''Max'') (Str ''Muster'')
          (Val (Num 1700000000001)) = Inl e) \<and>
   (\<exists>e. createPatient sample_runtime (Str ''Max'') (Str ''Muster'')
          (Val (Num 1700000000001)) Undefined = Inl e) \<and>
   createIDAT sample_runtime (Str '' Max'') (Str ''Muster '')
     (DateObj (Some 946681200000)) = Inr sample_idat"
proof -
  have "\<exists>e. createIDAT sample_runtime (Str ''  '') (Str ''Muster'')
              (DateObj (Some 946681200000)) = Inl e"
    using createIDAT_validation [of sample_runtime "Str ''  ''" "Str ''Muster''"
        "DateObj (Some 946681200000)"]
    by (simp add: trim_samples)
  moreover have e2: "\<exists>e. createIDAT sample_runtime (Str ''Max'') (Str ''Muster'')
                       (Val (Num 1700000000001)) = Inl e"
    using createIDAT_validation [of sample_runtime "Str ''Max''" "Str ''Muster''"
        "Val (Num 1700000000001)"]
    by (simp add: trim_samples sample_runtime_def)
  moreover have "\<exists>e. createPatient sample_runtime (Str ''Max'') (Str ''Muster'')
                       (Val (Num 1700000000001)) Undefined = Inl e"
    using e2 createIDAT_validation [of sample_runtime "Str ''Max''" "Str ''Muster''"
        "Val (Num 1700000000001)"]
    by blast
  moreover have "createIDAT sample_runtime (Str '' Max'') (Str ''Muster '')
                   (DateObj (Some 946681200000)) = Inr sample_idat"
    using createIDAT_validation [of sample_runtime "Str '' Max''" "Str ''Muster ''"
        "DateObj (Some 946681200000)"]
    by (cases "createIDAT sample_runtime (Str '' Max'') (Str ''Muster '')
                 (DateObj (Some 946681200000))")
       (auto simp: trim_samples sample_idat_def sample_runtime_def)
  ultimately show ?thesis by blast
qed

text \<open>
  Claim C3. getPseudonym is to return true or false, without throwing, on each of
  the answers 201, 400, 401 and 409. Under API version 1.0 the pseudonym is read
  from \<^verbatim>\<open>responseBody.newId\<close>, so the body is an object; the tentative flag is
  still read from \<^verbatim>\<open>responseBody[0]\<close>, which is undefined then. On such a 201 the
  function throws a TypeError after it has assigned the pseudonym and the status,
  and leaves tentative and tokenURL as they were.
\<close>

theorem getPseudonym_v1_throws:
  "getPseudonym sample_handler_v1 sample_runtime (\<lambda>reqs req. Got response_201_v1) []
      (sample_patient\<lparr>tokenURL := sample_token, tokenUseCallback := Bool False\<rparr>) =
     (Inl TypeError,
      sample_patient\<lparr>pseudonym := Str ''p1'', status := PSEUDONYMIZED, tokenURL := sample_token,
                      tokenUseCallback := Bool False\<rparr>,
      [pseudonymRequest sample_handler_v1 sample_runtime
         (sample_patient\<lparr>tokenURL := sample_token, tokenUseCallback := Bool False\<rparr>)])"
  by (simp add: getPseudonym_def getPseudonym_handle_def getPseudonym_201_def bindE_def
      response_201_v1_def sample_handler_v1_def PseudonymHandler_def Let_def)

subsection \<open>resolveConflicts\<close>

text \<open>
  Claim C2. resolveConflicts is to send the records whose status is TOKEN\_INVALID
  through createPseudonyms, which fetches new token URLs, and to resubmit the
  others with the token they kept. The test reads \<^verbatim>\<open>patient.statusCode\<close>, which no
  patient has, so no record is ever put aside: a patient left TOKEN\_INVALID (its
  tokenURL is null) is submitted to the URL null, no token is requested, and here
  the operation throws on the answer 404. createPseudonyms on the same patient
  requests a token and pseudonymizes it.
\<close>

theorem resolveConflicts_token_invalid:
  "(case resolveConflicts sample_handler sample_runtime sample_net sample_world [Str ''k1''] of
      (r, w) \<Rightarrow>
        r = Inl (ResponseError ''message'') \<and>
        map url (requests w) = [Null] \<and>
        patients w (Str ''k1'') = Some (sample_patient\<lparr>status := TOKEN_INVALID\<rparr>)) \<and>
   (case createPseudonyms sample_handler sample_runtime sample_net sample_world [Str ''k1''] of
      (r, w) \<Rightarrow>
        r = Inr ([Str ''k1''], []) \<and>
        map url (requests w) = [Str ''https://server/tokens/addPatient'', sample_token] \<and>
        map_option status (patients w (Str ''k1'')) = Some PSEUDONYMIZED)"
  by code_simp

subsection \<open>When a patient is CREATED\<close>

lemma updateIDAT_status:
  "status patient \<noteq> CREATED \<Longrightarrow>
   status (apply_op h rt patient (UpdateIDAT fn ln bd)) = CREATED \<longleftrightarrow>
     status patient > 0 \<and> (\<exists>i. createIDAT rt fn ln bd = Inr i \<and> i \<noteq> idat patient)"
  by (cases "createIDAT rt fn ln bd") (auto simp: updateIDAT_def Let_def IDAT.equality)

lemma updateMDAT_status:
  "status patient \<noteq> CREATED \<Longrightarrow>
   status (apply_op h rt patient (UpdateMDAT md)) = CREATED \<longleftrightarrow>
     status patient > 1 \<and> tokenUseCallback patient = Bool True \<and>
     mdat patient \<noteq> (case md of None \<Rightarrow> [] | Some m \<Rightarrow> m)"
  by (auto simp: updateMDAT_def Let_def PatientStatus_defs)

lemma getPseudonym_201_status:
  "status (snd (getPseudonym_201 h patient u resp)) = status patient \<or>
   status (snd (getPseudonym_201 h patient u resp)) = PSEUDONYMIZED"
  by (auto simp: getPseudonym_201_def Let_def split: option.splits sum.splits)

lemma getPseudonym_handle_status:
  "status (snd (getPseudonym_handle h patient f)) = status patient \<or>
   (\<exists>resp. f = Got resp \<and>
      (code resp = 201 \<and> status (snd (getPseudonym_handle h patient f)) = PSEUDONYMIZED \<or>
       code resp = 400 \<and> status (snd (getPseudonym_handle h patient f)) = IDAT_INVALID \<or>
       code resp = 401 \<and> status (snd (getPseudonym_handle h patient f)) = TOKEN_INVALID \<or>
       code resp = 409 \<and> status (snd (getPseudonym_handle h patient f)) = IDAT_CONFLICT))"
proof (cases f)
  case (Got resp)
  show ?thesis
    using getPseudonym_201_status [of h patient "tokenURL patient" resp]
    by (cases "getPseudonym_201 h patient (tokenURL patient) resp")
       (auto simp: Got getPseudonym_handle_def Let_def split: sum.splits)
qed (simp_all add: getPseudonym_handle_def)

lemma other_status:
  "status (apply_op h rt patient (AssignToken cb u)) = status patient"
  "status (apply_op h rt patient (Send s)) \<noteq> CREATED"
  "status (apply_op h rt patient (Request c)) \<noteq> CREATED"
  by (auto simp: send_patient_def request_patient_def PatientStatus_defs split: option.splits)

text \<open>
  Claim C4, as the code has it. A patient returned by createPatient is CREATED. A
  patient that is not CREATED becomes CREATED by exactly two operations:
  updateIDAT with identity data that pass createIDAT and differ from its idat
  while its status is greater than 0, and updateMDAT with an mdat different from
  its own while its status is greater than 1 and tokenUseCallback is true. A
  CREATED patient stays CREATED under every operation except a getPseudonym that
  is answered 201, 400, 401 or 409 and the status assignments of send and request.
\<close>

theorem created_transitions:
  "(\<forall>fn ln bd md p. createPatient rt fn ln bd md = Inr p \<longrightarrow> status p = CREATED) \<and>
   (status patient \<noteq> CREATED \<longrightarrow>
      (status (apply_op h rt patient x) = CREATED \<longleftrightarrow>
         (\<exists>fn ln bd i. x = UpdateIDAT fn ln bd \<and> status patient > 0 \<and>
            createIDAT rt fn ln bd = Inr i \<and> i \<noteq> idat patient) \<or>
         (\<exists>md. x = UpdateMDAT md \<and> status patient > 1 \<and> tokenUseCallback patient = Bool True \<and>
            mdat patient \<noteq> (case md of None \<Rightarrow> [] | Some m \<Rightarrow> m)))) \<and>
   (status patient = CREATED \<longrightarrow> status (apply_op h rt patient x) \<noteq> CREATED \<longrightarrow>
      (\<exists>resp. x = GetPseudonym (Got resp) \<and>
         (code resp = 201 \<or> code resp = 400 \<or> code resp = 401 \<or> code resp = 409)) \<or>
      (\<exists>s. x = Send s) \<or> (\<exists>c. x = Request c))"
proof -
  have a: "\<forall>fn ln bd md p. createPatient rt fn ln bd md = Inr p \<longrightarrow> status p = CREATED"
    by (auto simp: createPatient_def Let_def split: sum.splits if_splits)
  have b: "status (apply_op h rt patient x) = CREATED \<longleftrightarrow>
         (\<exists>fn ln bd i. x = UpdateIDAT fn ln bd \<and> status patient > 0 \<and>
            createIDAT rt fn ln bd = Inr i \<and> i \<noteq> idat patient) \<or>
         (\<exists>md. x = UpdateMDAT md \<and> status patient > 1 \<and> tokenUseCallback patient = Bool True \<and>
            mdat patient \<noteq> (case md of None \<Rightarrow> [] | Some m \<Rightarrow> m))"
    if n: "status patient \<noteq> CREATED"
  proof (cases x)
    case (UpdateIDAT fn ln bd)
    then show ?thesis using updateIDAT_status [OF n, of h rt fn ln bd] by auto
  next
    case (UpdateMDAT md)
    then show ?thesis using updateMDAT_status [OF n, of h rt md] by auto
  next
    case (AssignToken cb u)
    then show ?thesis using n by simp
  next
    case (GetPseudonym f)
    then show ?thesis using n getPseudonym_handle_status [of h patient f]
      by (auto simp: PatientStatus_defs)
  next
    case (Send s)
    then show ?thesis using other_status(2) [of h rt patient s] by simp
  next
    case (Request c)
    then show ?thesis using other_status(3) [of h rt patient c] by simp
  qed
  have c: "(\<exists>resp. x = GetPseudonym (Got resp) \<and>
         (code resp = 201 \<or> code resp = 400 \<or> code resp = 401 \<or> code resp = 409)) \<or>
      (\<exists>s. x = Send s) \<or> (\<exists>c. x = Request c)"
    if s: "status patient = CREATED" and l: "status (apply_op h rt patient x) \<noteq> CREATED"
  proof (cases x)
    case (UpdateIDAT fn ln bd)
    then show ?thesis using s l
      by (cases "createIDAT rt fn ln bd") (auto simp: updateIDAT_def Let_def CREATED_def)
  next
    case (UpdateMDAT md)
    then show ?thesis using s l
      by (auto simp: updateMDAT_def Let_def PatientStatus_defs split: if_splits)
  next
    case (AssignToken cb u)
    then show ?thesis using s l by simp
  next
    case (GetPseudonym f)
    then show ?thesis using s l getPseudonym_handle_status [of h patient f] by auto
  qed simp_all
  from a b c show ?thesis by blast
qed

theorem created_transitions_witness:
  "status (apply_ops sample_handler sample_runtime sample_patient (take 3 sample_history)) =
     PROCESSED \<and>
   tokenUseCallback (apply_ops sample_handler sample_runtime sample_patient
                       (take 3 sample_history)) = Bool True \<and>
   status (apply_op sample_handler sample_runtime
             (apply_ops sample_handler sample_runtime sample_patient (take 3 sample_history))
             (UpdateMDAT (Some ''{}''))) = CREATED"
proof -
  let ?p = "apply_ops sample_handler sample_runtime sample_patient (take 3 sample_history)"
  have s: "status ?p = PROCESSED" and t: "tokenUseCallback ?p = Bool True" and m: "mdat ?p = []"
    by code_simp+
  have "status (apply_op sample_handler sample_runtime ?p (UpdateMDAT (Some ''{}''))) = CREATED"
    using created_transitions [of sample_runtime ?p sample_handler "UpdateMDAT (Some ''{}'')"]
    by (simp add: s t m PatientStatus_defs)
  then show ?thesis using s t by simp
qed

text \<open>
  Against Claim C4 as it is written: a patient made by createPatient is submitted
  with a callback token and answered 201, is marked PROCESSED by send, and is
  CREATED again after updateMDAT, with no updateIDAT in its history. And a patient
  whose submission is answered 500 has been submitted and is still CREATED.
\<close>

theorem created_after_submission:
  "createPatient sample_runtime (Str ''Max'') (Str ''Muster'') (DateObj (Some 946681200000))
     Undefined = Inr sample_patient \<and>
   status (apply_ops sample_handler sample_runtime sample_patient (take 2 sample_history)) =
     PSEUDONYMIZED \<and>
   status (apply_ops sample_handler sample_runtime sample_patient sample_history) = CREATED \<and>
   (\<forall>fn ln bd. UpdateIDAT fn ln bd \<notin> set sample_history) \<and>
   status (apply_ops sample_handler sample_runtime sample_patient
             [AssignToken (Bool False) sample_token, GetPseudonym (Got (response_status 500))]) =
     CREATED"
  by (auto simp: createPatient_def createIDAT_def trim_samples sample_runtime_def sample_patient_def
      sample_idat_def sample_history_def getPseudonym_handle_def getPseudonym_201_def bindE_def
      splitIndex_def sample_token_def split_sample_token response_201_def response_status_def
      send_patient_def updateMDAT_def PatientStatus_defs Let_def)

subsection \<open>Tokens are redeemed by position\<close>















lemma urlToken_sample:
  "urlToken (Obj [(''useCallback'', Bool False),
                  (''urlTokens'', Arr [sample_token, sample_token2])]) 0 = Inr sample_token"
  "urlToken (Obj [(''useCallback'', Bool False),
                  (''urlTokens'', Arr [sample_token, sample_token2])]) 1 = Inr sample_token2"
  by code_simp+



subsection \<open>Depseudonymization\<close>














subsection \<open>Pseudonymization followed by depseudonymization\<close>

text \<open>A date read from \<^verbatim>\<open>year-month-day\<close> is midnight UTC.\<close>

lemma isoDateOnly_midnight:
  "isoDateOnly s = Some t \<Longrightarrow> t mod msPerDay = 0"
  by (auto simp: isoDateOnly_def Let_def split: list.splits if_splits)

text \<open>
  Claim C9. The identity read back for a pseudonym is to equal the one submitted.
  getPseudonym submits the day, month and year of the birthday in local time;
  handleDepseudonymization rebuilds the date from \<^verbatim>\<open>year-month-day\<close>, which
  \<^verbatim>\<open>new Date\<close> reads as midnight UTC. For the sample patient, born at midnight
  local time one hour east of UTC, the fields 01, 01 and 2000 are submitted, and
  the birthday that comes back is one hour later than the one submitted.
\<close>

theorem roundtrip_birthday_differs:
  "createPatient sample_runtime (Str ''Max'') (Str ''Muster'') (DateObj (Some 946681200000))
     Undefined = Inr sample_patient \<and>
   body (pseudonymRequest sample_handler sample_runtime
           (sample_patient\<lparr>tokenURL := sample_token\<rparr>)) =
     Text ''vorname=Max&nachname=Muster&geburtstag=01&geburtsmonat=01&geburtsjahr=2000&geburtsname=&plz=&ort=&sureness=false'' \<and>
   fst (depseudonymize sample_handler sample_runtime sample_read_net [] (Str ''p1'')) =
     Inr ([(Str ''p1'',
            \<lparr>firstname = ''Max'', lastname = ''Muster'', birthday = 946684800000\<rparr>,
            Bool False)], Arr []) \<and>
   birthday (idat sample_patient) = 946681200000"
  by code_simp

end
